theory Spec2Isabelle
  imports Complex_Main
begin

section \<open>The bottom sheet of src/CustomBottomSheet.tsx\<close>

text \<open>
  The component owns two shared values, \<^verbatim>\<open>animatedHeight\<close> and \<^verbatim>\<open>isDragging\<close>, and
  reacts to four kinds of input: a change of the \<^verbatim>\<open>visible\<close> prop (the effect of lines
  100-112), the three callbacks of the pan gesture (lines 125-176), a press on the modal
  backdrop (lines 190-205) and the progress of the animation that drives the height.

  Numbers are modelled as \<^typ>\<open>real\<close>: the heights, the translation and the
  threshold 80 are finite JavaScript numbers, and all the component does with them is one
  subtraction, \<^verbatim>\<open>Math.max\<close>, \<^verbatim>\<open>Math.min\<close> and comparisons.
\<close>

subsection \<open>Props\<close>

text \<open>
  \<^verbatim>\<open>CustomBottomSheetProps\<close>, restricted to the props that decide the height and the
  calls of \<^verbatim>\<open>onClose\<close>. An optional prop that the caller leaves out is \<open>None\<close>. The
  derived value of lines 115-119, which hands the height to \<^verbatim>\<open>onHeightChange\<close>, is not
  part of the model: when it is evaluated is decided by the scheduler of the animation
  library, not by the component.
\<close>

record CustomBottomSheetProps =
  p_height :: "real option"
  p_disableClose :: "bool option"
  p_isModal :: "bool option"
  p_minHeight :: "real option"
  p_maxHeight :: "real option"
  p_showBackdrop :: "bool option"

text \<open>The props after the defaults of the parameter list (lines 77-95) are applied.\<close>

record config =
  height :: real
  disableClose :: bool
  isModal :: bool
  minHeight :: real
  maxHeight :: real
  showBackdrop :: bool

definition or_default :: "'a option \<Rightarrow> 'a \<Rightarrow> 'a" where
  "or_default p d = (case p of None \<Rightarrow> d | Some v \<Rightarrow> v)"

text \<open>\<open>SCREEN_HEIGHT\<close> is the window height read at line 18.\<close>

definition destructure :: "real \<Rightarrow> CustomBottomSheetProps \<Rightarrow> config" where
  "destructure SCREEN_HEIGHT p =
     \<lparr> height = or_default (p_height p) (SCREEN_HEIGHT * 0.72),
       disableClose = or_default (p_disableClose p) False,
       isModal = or_default (p_isModal p) True,
       minHeight = or_default (p_minHeight p) 0,
       maxHeight = or_default (p_maxHeight p) (SCREEN_HEIGHT * 0.8),
       showBackdrop = or_default (p_showBackdrop p) True \<rparr>"

subsection \<open>Animations and the state of the sheet\<close>

text \<open>
  An animation object as the component builds it: \<^verbatim>\<open>withSpring(toValue, ...)\<close> or
  \<^verbatim>\<open>withTiming(toValue, {duration: 300, easing: Easing.out(Easing.quad)}, callback)\<close>.
  The only completion callback in the file is
  \<^verbatim>\<open>(finished) => { if (finished) runOnJS(onClose)() }\<close>.
\<close>

datatype driver = Spring | Timing

datatype completion = NoCallback | CloseIfFinished

record animation =
  driver :: driver
  toValue :: real
  callback :: completion

definition withSpring :: "real \<Rightarrow> animation" where
  "withSpring v = \<lparr> driver = Spring, toValue = v, callback = NoCallback \<rparr>"

definition withTiming :: "real \<Rightarrow> completion \<Rightarrow> animation" where
  "withTiming v cb = \<lparr> driver = Timing, toValue = v, callback = cb \<rparr>"

text \<open>
  The state of one mounted component. \<open>animatedHeight\<close> is the number currently held by
  the shared value and \<open>running\<close> the animation that drives it, if any. \<open>startHeight\<close>
  is the gesture context \<^verbatim>\<open>ctx\<close>, empty until the first \<^verbatim>\<open>onStart\<close>. \<open>visible\<close> is the
  prop of the last render. The last two fields record what has happened: how often
  \<^verbatim>\<open>onClose\<close> was called, and the values of \<^verbatim>\<open>finished\<close> with which the completion
  callback of a closing animation was called, oldest first.
\<close>

record sheet =
  animatedHeight :: real
  running :: "animation option"
  isDragging :: bool
  startHeight :: "real option"
  visible :: bool
  closeCalls :: nat
  reports :: "bool list"

subsection \<open>The shared value\<close>

text \<open>
  The completion callback is called with the flag \<^verbatim>\<open>finished\<close>:
  \<^verbatim>\<open>(finished) => { if (finished) { runOnJS(onClose)(); } }\<close> (lines 164-168 and
  198-202).
\<close>

definition call :: "completion \<Rightarrow> bool \<Rightarrow> sheet \<Rightarrow> sheet" where
  "call cb finished s =
     (case cb of
        NoCallback \<Rightarrow> s
      | CloseIfFinished \<Rightarrow>
          let s' = s\<lparr>reports := reports s @ [finished]\<rparr>
          in if finished then s'\<lparr>closeCalls := Suc (closeCalls s')\<rparr> else s')"

text \<open>
  Any assignment to \<^verbatim>\<open>animatedHeight.value\<close> replaces the animation in flight, whose
  callback is then called with \<^verbatim>\<open>finished = false\<close>.
\<close>

definition cancel :: "sheet \<Rightarrow> sheet" where
  "cancel s =
     (case running s of
        None \<Rightarrow> s
      | Some a \<Rightarrow> call (callback a) False (s\<lparr>running := None\<rparr>))"

text \<open>\<^verbatim>\<open>animatedHeight.value = v\<close> for a number \<open>v\<close>.\<close>

definition assign :: "real \<Rightarrow> sheet \<Rightarrow> sheet" where
  "assign v s = (cancel s)\<lparr>animatedHeight := v\<rparr>"

text \<open>
  \<^verbatim>\<open>animatedHeight.value = a\<close> for an animation \<open>a\<close>. When the number already equals the
  target of \<open>a\<close> there is nothing to animate: the setter calls the callback of \<open>a\<close> with
  \<^verbatim>\<open>finished = true\<close> at once and no animation is in flight. Otherwise \<open>a\<close> is in flight
  from now on.
\<close>

definition animate :: "animation \<Rightarrow> sheet \<Rightarrow> sheet" where
  "animate a s0 =
     (let s = cancel s0 in
      if animatedHeight s = toValue a then call (callback a) True s
      else s\<lparr>running := Some a\<rparr>)"

text \<open>
  The animation in flight moves the height to \<open>v\<close>, some point of its trajectory. A spring
  with damping 15 and stiffness 100 overshoots, so no bound on \<open>v\<close> is assumed.
\<close>

definition frame :: "real \<Rightarrow> sheet \<Rightarrow> sheet" where
  "frame v s = (case running s of None \<Rightarrow> s | Some a \<Rightarrow> s\<lparr>animatedHeight := v\<rparr>)"

text \<open>
  The animation in flight settles: the height is its target and its callback is called
  with \<^verbatim>\<open>finished = true\<close>.
\<close>

definition settle :: "sheet \<Rightarrow> sheet" where
  "settle s =
     (case running s of
        None \<Rightarrow> s
      | Some a \<Rightarrow> call (callback a) True (s\<lparr>running := None, animatedHeight := toValue a\<rparr>))"

subsection \<open>The effect on \<^verbatim>\<open>visible\<close> (lines 100-112)\<close>

definition useEffect_visible :: "config \<Rightarrow> sheet \<Rightarrow> sheet" where
  "useEffect_visible c s =
     (if visible s then animate (withSpring (height c)) s
      else animate (withTiming 0 NoCallback) s)"

subsection \<open>The gesture handler (lines 121-177)\<close>

definition onStart :: "sheet \<Rightarrow> sheet" where
  "onStart s = s\<lparr>startHeight := Some (animatedHeight s), isDragging := True\<rparr>"

text \<open>\<open>translationY\<close> is the event's field and \<open>start\<close> the context's \<^verbatim>\<open>startHeight\<close>.\<close>

definition onActive :: "config \<Rightarrow> real \<Rightarrow> real \<Rightarrow> sheet \<Rightarrow> sheet" where
  "onActive c translationY start s =
     (if disableClose c then s
      else
        let newHeight = start - translationY;
            newHeight = max (minHeight c) (min (maxHeight c) newHeight)
        in assign newHeight s)"

definition onEnd :: "config \<Rightarrow> sheet \<Rightarrow> sheet" where
  "onEnd c s0 =
     (let s = s0\<lparr>isDragging := False\<rparr> in
      if disableClose c then animate (withSpring (height c)) s
      else if animatedHeight s \<ge> maxHeight c then animate (withSpring (maxHeight c)) s
      else if animatedHeight s \<le> minHeight c then animate (withSpring (minHeight c)) s
      else if animatedHeight s < height c - 80 then animate (withTiming 0 CloseIfFinished) s
      else animate (withSpring (height c)) s)"

subsection \<open>The backdrop (lines 190-215)\<close>

definition handleBackdropPress :: "config \<Rightarrow> sheet \<Rightarrow> sheet" where
  "handleBackdropPress c s =
     (if \<not> disableClose c then animate (withTiming 0 CloseIfFinished) s else s)"

text \<open>
  The backdrop is rendered only in the modal branch, only with \<^verbatim>\<open>showBackdrop\<close>, and
  inside a \<^verbatim>\<open>Modal\<close> that is shown only while \<^verbatim>\<open>visible\<close>.
\<close>

definition backdrop_rendered :: "config \<Rightarrow> sheet \<Rightarrow> bool" where
  "backdrop_rendered c s = (isModal c \<and> showBackdrop c \<and> visible s)"

subsection \<open>The component as a state machine\<close>

text \<open>
  \<open>Render v\<close> is a render with \<^verbatim>\<open>visible = v\<close>; the effect runs when the prop differs
  from the previous render (\<^verbatim>\<open>height\<close>, the other dependency, is fixed by the
  configuration). \<open>DragStart\<close>, \<open>DragMove t\<close> and \<open>DragEnd\<close> are the gesture layer
  calling \<^verbatim>\<open>onStart\<close>, \<^verbatim>\<open>onActive\<close> with \<^verbatim>\<open>translationY = t\<close>, and \<^verbatim>\<open>onEnd\<close>. The
  gesture layer calls \<^verbatim>\<open>onStart\<close> before the first \<^verbatim>\<open>onActive\<close>, so a move never meets
  an empty context. \<open>Frame v\<close> and \<open>Finish\<close> are the animation engine advancing and
  completing the animation in flight.
\<close>

datatype event =
    Render bool
  | DragStart
  | DragMove real
  | DragEnd
  | BackdropPress
  | Frame real
  | Finish

definition render :: "config \<Rightarrow> bool \<Rightarrow> sheet \<Rightarrow> sheet" where
  "render c v s = (if v = visible s then s else useEffect_visible c (s\<lparr>visible := v\<rparr>))"

fun step :: "config \<Rightarrow> sheet \<Rightarrow> event \<Rightarrow> sheet" where
  "step c s (Render v) = render c v s"
| "step c s DragStart = onStart s"
| "step c s (DragMove t) =
     (case startHeight s of None \<Rightarrow> s | Some start \<Rightarrow> onActive c t start s)"
| "step c s DragEnd = onEnd c s"
| "step c s BackdropPress = (if backdrop_rendered c s then handleBackdropPress c s else s)"
| "step c s (Frame v) = frame v s"
| "step c s Finish = settle s"

definition run :: "config \<Rightarrow> sheet \<Rightarrow> event list \<Rightarrow> sheet" where
  "run c s es = foldl (step c) s es"

text \<open>
  Mounting: both shared values get their initial value (lines 96-97) and the effect runs
  for the first render.
\<close>

definition mount :: "config \<Rightarrow> bool \<Rightarrow> sheet" where
  "mount c v =
     useEffect_visible c
       \<lparr> animatedHeight = 0, running = None, isDragging = False, startHeight = None,
         visible = v, closeCalls = 0, reports = [] \<rparr>"

subsection \<open>The specification's vocabulary\<close>

text \<open>
  The snap policy in the words of the specification: where a drag that ends at height \<open>h\<close>
  comes to rest. It is compared with \<open>onEnd\<close> below.
\<close>

datatype resting = SnapTo real | CloseSheet

definition snap_policy :: "config \<Rightarrow> real \<Rightarrow> resting" where
  "snap_policy c h =
     (if disableClose c then SnapTo (height c)
      else if h \<ge> maxHeight c then SnapTo (maxHeight c)
      else if h \<le> minHeight c then SnapTo (minHeight c)
      else if h < height c - 80 then CloseSheet
      else SnapTo (height c))"

text \<open>A snap is a spring to the height; closing is the eased timing to 0 that reports to
  \<^verbatim>\<open>onClose\<close>.\<close>

fun enact :: "resting \<Rightarrow> animation" where
  "enact (SnapTo h) = withSpring h"
| "enact CloseSheet = withTiming 0 CloseIfFinished"

fun rest_height :: "resting \<Rightarrow> real" where
  "rest_height (SnapTo h) = h"
| "rest_height CloseSheet = 0"

fun closes :: "resting \<Rightarrow> nat" where
  "closes (SnapTo h) = 0"
| "closes CloseSheet = 1"

text \<open>The animation in flight will call \<^verbatim>\<open>onClose\<close> if it finishes.\<close>

definition close_pending :: "sheet \<Rightarrow> bool" where
  "close_pending s =
     (case running s of None \<Rightarrow> False | Some a \<Rightarrow> callback a = CloseIfFinished)"

text \<open>Every call of \<^verbatim>\<open>onClose\<close> answers to one report of \<^verbatim>\<open>finished = true\<close>.\<close>

definition accounted :: "sheet \<Rightarrow> bool" where
  "accounted s = (closeCalls s = count_list (reports s) True)"

text \<open>
  The event assigns the closing animation: a press on the rendered backdrop of a sheet
  that may be closed, or the end of a drag in the closing branch of \<open>onEnd\<close>.
\<close>

fun starts_close :: "config \<Rightarrow> sheet \<Rightarrow> event \<Rightarrow> bool" where
  "starts_close c s BackdropPress = (backdrop_rendered c s \<and> \<not> disableClose c)"
| "starts_close c s DragEnd =
     (\<not> disableClose c \<and> \<not> animatedHeight s \<ge> maxHeight c \<and>
      \<not> animatedHeight s \<le> minHeight c \<and> animatedHeight s < height c - 80)"
| "starts_close c s e = False"

text \<open>
  Events of the animation engine alone, and events without a gesture or a backdrop
  press.
\<close>

fun engine :: "event \<Rightarrow> bool" where
  "engine (Frame v) = True"
| "engine Finish = True"
| "engine e = False"

fun no_interaction :: "event \<Rightarrow> bool" where
  "no_interaction (Render v) = True"
| "no_interaction e = engine e"

text \<open>
  The prop \<^verbatim>\<open>visible\<close> goes from false to true and back to false, the last close
  animation runs to its end, and in between only the animation engine acts.
\<close>

definition toggle :: "event list \<Rightarrow> event list \<Rightarrow> event list \<Rightarrow> event list" where
  "toggle es1 es2 es3 = es1 @ [Render True] @ es2 @ [Render False] @ es3 @ [Finish]"

text \<open>The height is 0, or is going to 0.\<close>

definition closing :: "sheet \<Rightarrow> bool" where
  "closing s = (case running s of None \<Rightarrow> animatedHeight s = 0 | Some a \<Rightarrow> toValue a = 0)"

text \<open>The height the sheet has once the animation in flight, if any, has settled.\<close>

definition resting_height :: "sheet \<Rightarrow> real" where
  "resting_height s = (case running s of None \<Rightarrow> animatedHeight s | Some a \<Rightarrow> toValue a)"

definition closed_or_within :: "config \<Rightarrow> real \<Rightarrow> bool" where
  "closed_or_within c h = (h = 0 \<or> (minHeight c \<le> h \<and> h \<le> maxHeight c))"

subsection \<open>Configurations used as examples\<close>

text \<open>
  On a window 1000 high: the README's basic example (\<^verbatim>\<open>height={400}\<close>), its advanced
  example (\<^verbatim>\<open>minHeight={200}\<close>, \<^verbatim>\<open>maxHeight={SCREEN_HEIGHT * 0.9}\<close>),
  its example that is not a modal (\<^verbatim>\<open>isModal={false}\<close>, \<^verbatim>\<open>height={300}\<close>), and a sheet that
  cannot be closed. The basic example again on a window 400 high, where the default
  \<^verbatim>\<open>maxHeight\<close> is 320.
\<close>

definition default_props :: CustomBottomSheetProps where
  "default_props =
     \<lparr> p_height = None, p_disableClose = None, p_isModal = None, p_minHeight = None,
       p_maxHeight = None, p_showBackdrop = None \<rparr>"

definition readme_basic :: config where
  "readme_basic = destructure 1000 (default_props\<lparr>p_height := Some 400\<rparr>)"

definition readme_advanced :: config where
  "readme_advanced =
     destructure 1000
       (default_props\<lparr>p_height := Some (1000 * 0.72), p_minHeight := Some 200,
          p_maxHeight := Some (1000 * 0.9), p_disableClose := Some False,
          p_isModal := Some True, p_showBackdrop := Some True\<rparr>)"

definition readme_inline :: config where
  "readme_inline =
     destructure 1000 (default_props\<lparr>p_height := Some 300, p_isModal := Some False\<rparr>)"

definition locked :: config where
  "locked = destructure 1000 (default_props\<lparr>p_disableClose := Some True\<rparr>)"

definition readme_basic_small :: config where
  "readme_basic_small = destructure 400 (default_props\<lparr>p_height := Some 400\<rparr>)"

text \<open>The sheet mounted visible, opened, and then dragged by \<open>t\<close>.\<close>

definition dragged :: "config \<Rightarrow> real \<Rightarrow> sheet" where
  "dragged c t = run c (mount c True) [Finish, DragStart, DragMove t]"

section \<open>Basic facts\<close>

lemmas example_defs = default_props_def readme_basic_def readme_advanced_def locked_def
  readme_basic_small_def readme_inline_def destructure_def or_default_def

lemmas handler_defs = withSpring_def withTiming_def useEffect_visible_def onStart_def
  onActive_def onEnd_def handleBackdropPress_def backdrop_rendered_def render_def mount_def

lemmas prim_defs = call_def cancel_def assign_def animate_def frame_def settle_def

lemma closeCalls_call:
  "closeCalls (call cb finished s) =
     (if cb = CloseIfFinished \<and> finished then Suc (closeCalls s) else closeCalls s)"
  by (simp add: call_def Let_def split: completion.split)

lemma reports_call:
  "reports (call cb finished s) =
     (if cb = CloseIfFinished then reports s @ [finished] else reports s)"
  by (simp add: call_def Let_def split: completion.split)

lemma call_fields [simp]:
  "animatedHeight (call cb f s) = animatedHeight s"
  "running (call cb f s) = running s"
  "visible (call cb f s) = visible s"
  "startHeight (call cb f s) = startHeight s"
  "isDragging (call cb f s) = isDragging s"
  by (simp_all add: call_def Let_def split: completion.split)

lemma call_NoCallback [simp]: "call NoCallback f s = s"
  by (simp add: call_def)

lemma cancel_fields [simp]:
  "animatedHeight (cancel s) = animatedHeight s"
  "running (cancel s) = None"
  "visible (cancel s) = visible s"
  "startHeight (cancel s) = startHeight s"
  "isDragging (cancel s) = isDragging s"
  "closeCalls (cancel s) = closeCalls s"
  by (simp_all add: cancel_def closeCalls_call split: option.split)

lemma animate_fields [simp]:
  "animatedHeight (animate a s) = animatedHeight s"
  "visible (animate a s) = visible s"
  "startHeight (animate a s) = startHeight s"
  "isDragging (animate a s) = isDragging s"
  by (simp_all add: animate_def Let_def)

lemma running_animate:
  "running (animate a s) = (if animatedHeight s = toValue a then None else Some a)"
  by (simp add: animate_def Let_def)

lemma closeCalls_animate:
  "closeCalls (animate a s) =
     (if animatedHeight s = toValue a \<and> callback a = CloseIfFinished
      then Suc (closeCalls s) else closeCalls s)"
  by (simp add: animate_def Let_def closeCalls_call)

lemma assign_fields [simp]:
  "animatedHeight (assign v s) = v"
  "running (assign v s) = None"
  "visible (assign v s) = visible s"
  "startHeight (assign v s) = startHeight s"
  "isDragging (assign v s) = isDragging s"
  "closeCalls (assign v s) = closeCalls s"
  by (simp_all add: assign_def)

lemma frame_fields [simp]:
  "running (frame v s) = running s"
  "visible (frame v s) = visible s"
  "startHeight (frame v s) = startHeight s"
  "isDragging (frame v s) = isDragging s"
  "closeCalls (frame v s) = closeCalls s"
  "reports (frame v s) = reports s"
  by (simp_all add: frame_def split: option.split)

lemma animatedHeight_frame:
  "animatedHeight (frame v s) = (if running s = None then animatedHeight s else v)"
  by (simp add: frame_def split: option.split)

lemma settle_fields [simp]:
  "running (settle s) = None"
  "visible (settle s) = visible s"
  "startHeight (settle s) = startHeight s"
  "isDragging (settle s) = isDragging s"
  by (simp_all add: settle_def split: option.split)

lemma animatedHeight_settle:
  "animatedHeight (settle s) =
     (case running s of None \<Rightarrow> animatedHeight s | Some a \<Rightarrow> toValue a)"
  by (simp add: settle_def split: option.split)

lemma closeCalls_settle:
  "closeCalls (settle s) =
     (case running s of
        None \<Rightarrow> closeCalls s
      | Some a \<Rightarrow> if callback a = CloseIfFinished then Suc (closeCalls s) else closeCalls s)"
  by (simp add: settle_def closeCalls_call split: option.split)

lemma withSpring_sel [simp]:
  "toValue (withSpring v) = v" "callback (withSpring v) = NoCallback" "driver (withSpring v) = Spring"
  by (simp_all add: withSpring_def)

lemma withTiming_sel [simp]:
  "toValue (withTiming v cb) = v" "callback (withTiming v cb) = cb" "driver (withTiming v cb) = Timing"
  by (simp_all add: withTiming_def)

text \<open>Once an assigned animation has settled, it does not matter whether it ever ran.\<close>

lemma animatedHeight_settle_animate: "animatedHeight (settle (animate a s)) = toValue a"
  by (simp add: animatedHeight_settle running_animate)

lemma closeCalls_settle_animate:
  "closeCalls (settle (animate a s)) =
     (if callback a = CloseIfFinished then Suc (closeCalls s) else closeCalls s)"
  by (simp add: closeCalls_settle running_animate closeCalls_animate)

lemma run_Nil [simp]: "run c s [] = s"
  by (simp add: run_def)

lemma run_Cons [simp]: "run c s (e # es) = run c (step c s e) es"
  by (simp add: run_def)

lemma run_append: "run c s (es @ fs) = run c (run c s es) fs"
  by (simp add: run_def)

lemma close_pending_simps [simp]:
  "close_pending (cancel s) = False"
  "close_pending (assign v s) = False"
  "close_pending (frame v s) = close_pending s"
  "close_pending (settle s) = False"
  "close_pending (onStart s) = close_pending s"
  by (simp_all add: close_pending_def onStart_def)

lemma close_pending_animate:
  "close_pending (animate a s) = (callback a = CloseIfFinished \<and> animatedHeight s \<noteq> toValue a)"
  by (auto simp: close_pending_def running_animate)

lemma closeCalls_step:
  "closeCalls (step c s e) =
     (if e = Finish \<and> close_pending s \<or> starts_close c s e \<and> animatedHeight s = 0
      then Suc (closeCalls s) else closeCalls s)"
proof (cases e)
  case (Render v)
  then show ?thesis
    by (simp add: render_def useEffect_visible_def closeCalls_animate)
next
  case DragStart
  then show ?thesis
    by (simp add: onStart_def)
next
  case (DragMove t)
  then show ?thesis
    by (simp add: onActive_def Let_def split: option.split)
next
  case DragEnd
  then show ?thesis
    by (simp add: onEnd_def Let_def closeCalls_animate)
next
  case BackdropPress
  then show ?thesis
    by (simp add: handleBackdropPress_def closeCalls_animate)
next
  case (Frame v)
  then show ?thesis
    by simp
next
  case Finish
  then show ?thesis
    by (cases "running s") (simp_all add: closeCalls_settle close_pending_def)
qed

lemma locked_step_close_pending:
  "disableClose c \<Longrightarrow> \<not> close_pending s \<Longrightarrow> \<not> close_pending (step c s e)"
  by (cases e)
     (simp_all add: render_def useEffect_visible_def onActive_def onEnd_def Let_def
        handleBackdropPress_def close_pending_animate split: option.split)

lemma locked_starts_close: "disableClose c \<Longrightarrow> \<not> starts_close c s e"
  by (cases e) simp_all

lemma locked_run:
  "disableClose c \<Longrightarrow> \<not> close_pending s \<Longrightarrow>
   closeCalls (run c s es) = closeCalls s \<and> \<not> close_pending (run c s es)"
proof (induction es arbitrary: s)
  case Nil
  then show ?case by simp
next
  case (Cons e es)
  have "\<not> close_pending (step c s e)"
    using Cons.prems by (rule locked_step_close_pending)
  moreover have "closeCalls (step c s e) = closeCalls s"
    using Cons.prems by (simp add: closeCalls_step locked_starts_close)
  ultimately show ?case
    using Cons.IH [of "step c s e"] Cons.prems by simp
qed

lemma mount_fields [simp]:
  "animatedHeight (mount c v) = 0"
  "closeCalls (mount c v) = 0"
  "reports (mount c v) = []"
  "visible (mount c v) = v"
  "startHeight (mount c v) = None"
  "isDragging (mount c v) = False"
  by (simp_all add: mount_def useEffect_visible_def closeCalls_animate animate_def cancel_def
      Let_def)

lemma running_mount:
  "running (mount c v) = (if v \<and> height c \<noteq> 0 then Some (withSpring (height c)) else None)"
  by (auto simp: mount_def useEffect_visible_def running_animate)

lemma mount_not_close_pending [simp]: "\<not> close_pending (mount c v)"
  by (simp add: close_pending_def running_mount)

lemma accounted_update [simp]:
  "accounted (s\<lparr>animatedHeight := h\<rparr>) = accounted s"
  "accounted (s\<lparr>running := r\<rparr>) = accounted s"
  "accounted (s\<lparr>isDragging := d\<rparr>) = accounted s"
  "accounted (s\<lparr>startHeight := x\<rparr>) = accounted s"
  "accounted (s\<lparr>visible := v\<rparr>) = accounted s"
  by (simp_all add: accounted_def)

lemma accounted_call [simp]: "accounted (call cb f s) = accounted s"
  by (cases cb; cases f) (simp_all add: accounted_def call_def Let_def)

lemma accounted_cancel [simp]: "accounted (cancel s) = accounted s"
  by (cases "running s") (simp_all add: cancel_def)

lemma accounted_animate [simp]: "accounted (animate a s) = accounted s"
  by (simp add: animate_def Let_def)

lemma accounted_assign [simp]: "accounted (assign v s) = accounted s"
  by (simp add: assign_def)

lemma accounted_settle [simp]: "accounted (settle s) = accounted s"
  by (cases "running s") (simp_all add: settle_def)

lemma accounted_frame [simp]: "accounted (frame v s) = accounted s"
  by (cases "running s") (simp_all add: frame_def)

lemma accounted_step: "accounted (step c s e) = accounted s"
  by (cases e)
     (simp_all add: render_def useEffect_visible_def onStart_def onActive_def onEnd_def
        handleBackdropPress_def Let_def split: option.split)

lemma accounted_run: "accounted (run c s es) = accounted s"
  by (induction es arbitrary: s) (simp_all add: accounted_step)

lemma accounted_mount: "accounted (mount c v)"
  by (simp add: accounted_def)

lemma run_frames:
  "running (run c s (map Frame vs)) = running s \<and>
   closeCalls (run c s (map Frame vs)) = closeCalls s"
  by (induction vs arbitrary: s) simp_all

lemma run_frames_idle: "running s = None \<Longrightarrow> run c s (map Frame vs) = s"
  by (induction vs) (simp_all add: frame_def)

lemma no_interaction_step:
  "no_interaction e \<Longrightarrow> \<not> close_pending s \<Longrightarrow> \<not> close_pending (step c s e)"
  by (cases e) (auto simp: render_def useEffect_visible_def close_pending_animate)

lemma no_interaction_starts_close: "no_interaction e \<Longrightarrow> \<not> starts_close c s e"
  by (cases e) simp_all

lemma no_interaction_run:
  "list_all no_interaction es \<Longrightarrow> \<not> close_pending s \<Longrightarrow> closeCalls (run c s es) = closeCalls s"
proof (induction es arbitrary: s)
  case Nil
  then show ?case by simp
next
  case (Cons e es)
  then have "list_all no_interaction es" and "\<not> close_pending (step c s e)"
    by (simp_all add: no_interaction_step)
  then have "closeCalls (run c (step c s e) es) = closeCalls (step c s e)"
    by (rule Cons.IH)
  then show ?case
    using Cons.prems by (simp add: closeCalls_step no_interaction_starts_close)
qed

lemma engine_no_interaction: "list_all engine es \<Longrightarrow> list_all no_interaction es"
  by (induction es) (auto elim: engine.elims)

lemma engine_step_visible: "engine e \<Longrightarrow> visible (step c s e) = visible s"
  by (cases e) simp_all

lemma engine_run_visible: "list_all engine es \<Longrightarrow> visible (run c s es) = visible s"
  by (induction es arbitrary: s) (simp_all add: engine_step_visible)

lemma engine_step_closing: "engine e \<Longrightarrow> closing s \<Longrightarrow> closing (step c s e)"
  by (cases e)
     (auto simp: closing_def animatedHeight_settle animatedHeight_frame split: option.splits)

lemma engine_run_closing: "list_all engine es \<Longrightarrow> closing s \<Longrightarrow> closing (run c s es)"
  by (induction es arbitrary: s) (simp_all add: engine_step_closing)

lemma render_False:
  "visible s \<Longrightarrow> step c s (Render False) = animate (withTiming 0 NoCallback) (s\<lparr>visible := False\<rparr>)"
  by (simp add: render_def useEffect_visible_def)

lemma closing_animate: "toValue a = 0 \<Longrightarrow> closing (animate a s)"
  by (simp add: closing_def running_animate)

lemma settle_closing: "closing s \<Longrightarrow> animatedHeight (settle s) = 0"
  by (simp add: closing_def animatedHeight_settle split: option.splits)

lemma resting_height_simps:
  "running s = None \<Longrightarrow> resting_height s = animatedHeight s"
  "running s = Some a \<Longrightarrow> resting_height s = toValue a"
  by (simp_all add: resting_height_def)

lemma resting_height_animate [simp]: "resting_height (animate a s) = toValue a"
  by (simp add: resting_height_def running_animate)

lemma step_resting:
  assumes "minHeight c \<le> height c" and "height c \<le> maxHeight c"
    and "closed_or_within c (resting_height s)"
  shows "closed_or_within c (resting_height (step c s e))"
proof (cases e)
  case (DragMove t)
  show ?thesis
  proof (cases "disableClose c \<or> startHeight s = None")
    case True
    then show ?thesis
      using assms(3) DragMove by (auto simp: onActive_def split: option.splits)
  next
    case False
    then show ?thesis
      using assms(1,2) DragMove
      by (auto simp: onActive_def Let_def resting_height_simps closed_or_within_def)
  qed
next
  case DragEnd
  then show ?thesis
    using assms(1,2)
    by (simp add: onEnd_def Let_def closed_or_within_def)
next
  case (Render v)
  then show ?thesis
    using assms
    by (simp add: render_def useEffect_visible_def closed_or_within_def)
next
  case BackdropPress
  then show ?thesis
    using assms(3)
    by (simp add: handleBackdropPress_def closed_or_within_def)
next
  case DragStart
  then show ?thesis
    using assms(3) by (cases "running s") (simp_all add: resting_height_def onStart_def)
next
  case (Frame v)
  then show ?thesis
    using assms(3) by (cases "running s") (simp_all add: resting_height_def frame_def)
next
  case Finish
  then show ?thesis
    using assms(3)
    by (cases "running s") (simp_all add: resting_height_def animatedHeight_settle)
qed

lemma run_resting:
  assumes "minHeight c \<le> height c" and "height c \<le> maxHeight c"
  shows "closed_or_within c (resting_height s) \<Longrightarrow> closed_or_within c (resting_height (run c s es))"
  by (induction es arbitrary: s) (simp_all add: step_resting [OF assms])

lemma resting_height_mount: "resting_height (mount c v) = (if v then height c else 0)"
  by (simp add: mount_def useEffect_visible_def)

lemma toValue_enact: "toValue (enact p) = rest_height p"
  by (cases p) simp_all

lemma callback_enact: "(callback (enact p) = CloseIfFinished) = (p = CloseSheet)"
  by (cases p) simp_all

lemma closes_CloseSheet: "closes p = (if p = CloseSheet then 1 else 0)"
  by (cases p) simp_all

lemma reports_cancel:
  "reports (cancel s) = reports s @ (if close_pending s then [False] else [])"
  by (cases "running s") (simp_all add: cancel_def close_pending_def reports_call)

lemma starts_close_step:
  assumes "starts_close c s e"
  shows "running (step c s e) = (if animatedHeight s = 0 then None else Some (withTiming 0 CloseIfFinished))"
    and "animatedHeight (step c s e) = animatedHeight s"
  using assms
  by (cases e; simp add: handleBackdropPress_def onEnd_def Let_def running_animate)+

section \<open>The drag handlers\<close>

text \<open>
  C1. When a drag ends, \<open>onEnd\<close> clears the drag flag and assigns exactly the animation the
  snap policy names, in its priority order: with \<open>disableClose\<close> a spring to \<open>height\<close>;
  otherwise a spring to \<open>maxHeight\<close> if the height is at least \<open>maxHeight\<close>, else a spring
  to \<open>minHeight\<close> if it is at most \<open>minHeight\<close>, else the timing to 0 with the close
  callback if it is below \<open>height - 80\<close>, else a spring to \<open>height\<close>. The handler does not
  move the height. Unless the height is already the policy's resting height, the animation
  is then in flight and \<^verbatim>\<open>onClose\<close> has not been called; if it is, the animation is
  complete at once. Either way, once the animation has settled the height is the policy's
  resting height, and \<^verbatim>\<open>onClose\<close> has been called once exactly in the closing case.
\<close>

theorem onEnd_snap_policy:
  "onEnd c s = animate (enact (snap_policy c (animatedHeight s))) (s\<lparr>isDragging := False\<rparr>) \<and>
   running (onEnd c s) =
     (if animatedHeight s = rest_height (snap_policy c (animatedHeight s)) then None
      else Some (enact (snap_policy c (animatedHeight s)))) \<and>
   animatedHeight (onEnd c s) = animatedHeight s \<and>
   closeCalls (onEnd c s) =
     closeCalls s +
       (if animatedHeight s = rest_height (snap_policy c (animatedHeight s))
        then closes (snap_policy c (animatedHeight s)) else 0) \<and>
   animatedHeight (settle (onEnd c s)) = rest_height (snap_policy c (animatedHeight s)) \<and>
   closeCalls (settle (onEnd c s)) = closeCalls s + closes (snap_policy c (animatedHeight s))"
proof -
  have e: "onEnd c s
      = animate (enact (snap_policy c (animatedHeight s))) (s\<lparr>isDragging := False\<rparr>)"
    by (simp add: onEnd_def snap_policy_def Let_def)
  show ?thesis
    by (simp add: e running_animate closeCalls_animate animatedHeight_settle_animate
        closeCalls_settle_animate toValue_enact callback_enact closes_CloseSheet)
qed

theorem onEnd_snap_policy_witness:
  "running (onEnd readme_advanced (mount readme_advanced True\<lparr>animatedHeight := 500\<rparr>))
     = Some (withTiming 0 CloseIfFinished) \<and>
   closeCalls (settle (onEnd readme_advanced (mount readme_advanced True\<lparr>animatedHeight := 500\<rparr>)))
     = 1"
proof -
  have p: "snap_policy readme_advanced 500 = CloseSheet"
    by (simp add: snap_policy_def example_defs)
  have n: "closeCalls (mount readme_advanced True\<lparr>animatedHeight := 500\<rparr>) = 0"
    by simp
  show ?thesis
    using p n
      onEnd_snap_policy [of readme_advanced "mount readme_advanced True\<lparr>animatedHeight := 500\<rparr>",
        THEN conjunct2]
    by simp
qed

text \<open>
  C2. With closing enabled, a move sets the height to the height at the start of the
  gesture minus the translation, clamped by \<^verbatim>\<open>Math.max(minHeight, Math.min(maxHeight, _))\<close>;
  the start height is the one \<open>onStart\<close> recorded, and a move leaves it as it is. For a
  configuration with \<open>minHeight \<le> maxHeight\<close> (the specification leaves the other case
  to the caller), the height after any move, in any state a gesture has started in, lies
  in \<open>[minHeight, maxHeight]\<close>.
\<close>

theorem onActive_clamped:
  assumes "\<not> disableClose c"
  shows "animatedHeight (onActive c t start s)
           = max (minHeight c) (min (maxHeight c) (start - t)) \<and>
         startHeight (onActive c t start s) = startHeight s \<and>
         animatedHeight (step c (onStart s) (DragMove t))
           = max (minHeight c) (min (maxHeight c) (animatedHeight s - t)) \<and>
         (minHeight c \<le> maxHeight c \<longrightarrow> startHeight s \<noteq> None \<longrightarrow>
            minHeight c \<le> animatedHeight (step c s (DragMove t)) \<and>
            animatedHeight (step c s (DragMove t)) \<le> maxHeight c)"
  using assms by (auto simp: onActive_def onStart_def Let_def)

theorem onActive_clamped_witness:
  "\<not> disableClose readme_advanced \<and>
   minHeight readme_advanced \<le> maxHeight readme_advanced \<and>
   startHeight (onStart (mount readme_advanced True)) \<noteq> None \<and>
   animatedHeight (onActive readme_advanced 600 720 (mount readme_advanced True)) = 200 \<and>
   minHeight readme_advanced
     \<le> animatedHeight (step readme_advanced (onStart (mount readme_advanced True)) (DragMove 600)) \<and>
   animatedHeight (step readme_advanced (onStart (mount readme_advanced True)) (DragMove 600))
     \<le> maxHeight readme_advanced"
proof -
  have h: "\<not> disableClose readme_advanced"
    and m: "minHeight readme_advanced \<le> maxHeight readme_advanced"
    and v: "minHeight readme_advanced = 200" "maxHeight readme_advanced = 900"
    by (simp_all add: example_defs)
  have s: "startHeight (onStart (mount readme_advanced True)) \<noteq> None"
    by (simp add: onStart_def)
  show ?thesis
    using h m s v
      onActive_clamped [OF h, of 600 720 "mount readme_advanced True"]
      onActive_clamped [OF h, of 600 720 "onStart (mount readme_advanced True)"]
    by simp
qed

text \<open>
  C9. With \<open>disableClose\<close> a move returns before it writes: the whole state, the height
  included, is as before. The drag flag is set by every start and cleared by every end,
  whatever \<open>disableClose\<close> is.
\<close>

theorem disableClose_move_is_noop:
  "(disableClose c \<longrightarrow> onActive c t start s = s \<and> step c s (DragMove t) = s) \<and>
   isDragging (onStart s) \<and> isDragging (step c s DragStart) \<and>
   \<not> isDragging (onEnd c s) \<and> \<not> isDragging (step c s DragEnd)"
  by (simp add: onActive_def onStart_def onEnd_def Let_def split: option.split)

theorem disableClose_move_is_noop_witness:
  "disableClose locked \<and>
   step locked (onStart (mount locked True)) (DragMove 300) = onStart (mount locked True) \<and>
   isDragging (step locked (mount locked True) DragStart) \<and>
   \<not> isDragging (step locked (onStart (mount locked True)) DragEnd)"
proof -
  have h: "disableClose locked"
    by (simp add: example_defs)
  show ?thesis
    using h disableClose_move_is_noop [of locked 300 0 "onStart (mount locked True)"]
      disableClose_move_is_noop [of locked 300 0 "mount locked True"]
    by blast
qed

text \<open>
  The claim C4 as the specification's test list has it, without the priority of the two
  bounds, fails on the README's advanced example (height 720, bounds 200 and 900). A drag
  down by 600 ends at 200, below 720 - 80, yet \<open>onEnd\<close> assigns the spring to
  \<open>minHeight\<close>: the sheet rests at 200 and \<^verbatim>\<open>onClose\<close> is not called. A drag up by 300
  ends at 900, within the bounds and not below 720 - 80, yet the sheet rests at
  \<open>maxHeight\<close>, not at 720.
\<close>

theorem drag_end_threshold_counterexample:
  "\<not> disableClose readme_advanced \<and> height readme_advanced = 720 \<and>
   animatedHeight (dragged readme_advanced 600) < height readme_advanced - 80 \<and>
   onEnd readme_advanced (dragged readme_advanced 600)
     = animate (withSpring 200) ((dragged readme_advanced 600)\<lparr>isDragging := False\<rparr>) \<and>
   animatedHeight (run readme_advanced (dragged readme_advanced 600) [DragEnd, Finish]) = 200 \<and>
   closeCalls (run readme_advanced (dragged readme_advanced 600) [DragEnd, Finish]) = 0 \<and>
   animatedHeight (dragged readme_advanced (- 300)) \<ge> height readme_advanced - 80 \<and>
   minHeight readme_advanced \<le> animatedHeight (dragged readme_advanced (- 300)) \<and>
   animatedHeight (dragged readme_advanced (- 300)) \<le> maxHeight readme_advanced \<and>
   animatedHeight (run readme_advanced (dragged readme_advanced (- 300)) [DragEnd, Finish]) = 900"
  by (simp add: dragged_def example_defs prim_defs handler_defs Let_def)

text \<open>
  C4, amended. With closing enabled, a drag that ends strictly between \<open>minHeight\<close> and
  \<open>maxHeight\<close> closes the sheet if it ends below \<open>height - 80\<close> (\<open>onEnd\<close> assigns the
  timing to 0 with the close callback; once that has settled the height is 0 and
  \<^verbatim>\<open>onClose\<close> has been called once more), and otherwise restores \<open>height\<close> (a spring;
  once it has settled the height is \<open>height\<close> and \<^verbatim>\<open>onClose\<close> has not been called). The
  animation is in flight after the handler unless the height is already its target.
\<close>

theorem drag_end_threshold:
  assumes "\<not> disableClose c"
    and "minHeight c < animatedHeight s" and "animatedHeight s < maxHeight c"
  shows "(animatedHeight s < height c - 80 \<longrightarrow>
            onEnd c s = animate (withTiming 0 CloseIfFinished) (s\<lparr>isDragging := False\<rparr>) \<and>
            (animatedHeight s \<noteq> 0 \<longrightarrow>
               running (onEnd c s) = Some (withTiming 0 CloseIfFinished)) \<and>
            animatedHeight (settle (onEnd c s)) = 0 \<and>
            closeCalls (settle (onEnd c s)) = Suc (closeCalls s)) \<and>
         (animatedHeight s \<ge> height c - 80 \<longrightarrow>
            onEnd c s = animate (withSpring (height c)) (s\<lparr>isDragging := False\<rparr>) \<and>
            (animatedHeight s \<noteq> height c \<longrightarrow>
               running (onEnd c s) = Some (withSpring (height c))) \<and>
            animatedHeight (settle (onEnd c s)) = height c \<and>
            closeCalls (settle (onEnd c s)) = closeCalls s)"
  using assms
  by (simp add: onEnd_def Let_def running_animate animatedHeight_settle_animate
      closeCalls_settle_animate)

theorem drag_end_threshold_witness:
  "\<not> disableClose readme_advanced \<and>
   minHeight readme_advanced < animatedHeight (dragged readme_advanced 300) \<and>
   animatedHeight (dragged readme_advanced 300) < maxHeight readme_advanced \<and>
   animatedHeight (dragged readme_advanced 300) < height readme_advanced - 80 \<and>
   animatedHeight (dragged readme_advanced 300) \<noteq> 0 \<and>
   running (onEnd readme_advanced (dragged readme_advanced 300))
     = Some (withTiming 0 CloseIfFinished) \<and>
   closeCalls (settle (onEnd readme_advanced (dragged readme_advanced 300)))
     = Suc (closeCalls (dragged readme_advanced 300)) \<and>
   minHeight readme_advanced < animatedHeight (dragged readme_advanced 50) \<and>
   animatedHeight (dragged readme_advanced 50) < maxHeight readme_advanced \<and>
   animatedHeight (dragged readme_advanced 50) \<ge> height readme_advanced - 80 \<and>
   animatedHeight (settle (onEnd readme_advanced (dragged readme_advanced 50)))
     = height readme_advanced"
proof -
  have c: "\<not> disableClose readme_advanced" "height readme_advanced = 720"
    "minHeight readme_advanced = 200" "maxHeight readme_advanced = 900"
    by (simp_all add: example_defs)
  have d: "animatedHeight (dragged readme_advanced 300) = 420"
    "animatedHeight (dragged readme_advanced 50) = 670"
    by (simp_all add: dragged_def example_defs prim_defs handler_defs Let_def)
  have low: "minHeight readme_advanced < animatedHeight (dragged readme_advanced 300)"
    "animatedHeight (dragged readme_advanced 300) < maxHeight readme_advanced"
    "animatedHeight (dragged readme_advanced 300) < height readme_advanced - 80"
    "animatedHeight (dragged readme_advanced 300) \<noteq> 0"
    using c d by simp_all
  have high: "minHeight readme_advanced < animatedHeight (dragged readme_advanced 50)"
    "animatedHeight (dragged readme_advanced 50) < maxHeight readme_advanced"
    "animatedHeight (dragged readme_advanced 50) \<ge> height readme_advanced - 80"
    using c d by simp_all
  show ?thesis
    using c(1) low high
      drag_end_threshold [OF c(1) low(1,2)] drag_end_threshold [OF c(1) high(1,2)]
    by blast
qed

section \<open>The close callback\<close>

text \<open>
  C3. With \<open>disableClose\<close>, after any sequence of events from mounting on (drags, backdrop
  presses, and also renders and the progress of animations) \<^verbatim>\<open>onClose\<close> has not been
  called.
\<close>

theorem disableClose_never_closes:
  assumes "disableClose c"
  shows "closeCalls (run c (mount c v) es) = 0"
  using locked_run [OF assms, of "mount c v" es] by simp

theorem disableClose_never_closes_witness:
  "disableClose locked \<and>
   closeCalls (run locked (mount locked True)
     [Finish, DragStart, DragMove 700, DragEnd, Finish, BackdropPress, Finish]) = 0"
proof -
  have h: "disableClose locked"
    by (simp add: example_defs)
  show ?thesis
    using h disableClose_never_closes [OF h, of True
      "[Finish, DragStart, DragMove 700, DragEnd, Finish, BackdropPress, Finish]"]
    by simp
qed

text \<open>
  C10. The callback of a closing animation calls \<^verbatim>\<open>onClose\<close> when it is called with
  \<^verbatim>\<open>finished = true\<close> and does nothing otherwise; so after any sequence of events from
  mounting on, \<^verbatim>\<open>onClose\<close> has been called exactly as often as a closing animation has
  reported \<^verbatim>\<open>finished = true\<close>. An event calls \<^verbatim>\<open>onClose\<close> only by completing a closing
  animation: the one in flight comes to its end, or the closing animation is assigned
  while the height is already 0, its target. An animation that is superseded is dropped
  and, if it was a closing one, reports \<^verbatim>\<open>finished = false\<close>, without a call. The
  closing branch of \<open>onEnd\<close> and the backdrop press are the two places that assign a
  closing animation; it is in flight afterwards unless the height is already 0.
\<close>

theorem close_only_when_finished:
  "closeCalls (call CloseIfFinished finished s)
     = (if finished then Suc (closeCalls s) else closeCalls s) \<and>
   reports (call CloseIfFinished finished s) = reports s @ [finished] \<and>
   closeCalls (run c (mount c v) es) = count_list (reports (run c (mount c v) es)) True \<and>
   closeCalls (step c s e)
     = (if e = Finish \<and> close_pending s \<or> starts_close c s e \<and> animatedHeight s = 0
        then Suc (closeCalls s) else closeCalls s) \<and>
   closeCalls (cancel s) = closeCalls s \<and> running (cancel s) = None \<and>
   reports (cancel s) = reports s @ (if close_pending s then [False] else []) \<and>
   (starts_close c s e \<and> animatedHeight s \<noteq> 0 \<longrightarrow>
      close_pending (step c s e) \<and> closeCalls (step c s e) = closeCalls s) \<and>
   (starts_close c s e \<and> animatedHeight s = 0 \<longrightarrow>
      running (step c s e) = None \<and> closeCalls (step c s e) = Suc (closeCalls s))"
proof -
  have "accounted (run c (mount c v) es)"
    by (simp add: accounted_run accounted_mount)
  then have a: "closeCalls (run c (mount c v) es) = count_list (reports (run c (mount c v) es)) True"
    by (simp add: accounted_def)
  have n: "starts_close c s e \<Longrightarrow> e \<noteq> Finish"
    by (cases e) simp_all
  have p: "starts_close c s e \<Longrightarrow> animatedHeight s \<noteq> 0 \<Longrightarrow> close_pending (step c s e)"
    by (simp add: close_pending_def starts_close_step)
  show ?thesis
    using a n p
    by (auto simp: closeCalls_call reports_call closeCalls_step reports_cancel starts_close_step)
qed

theorem close_only_when_finished_witness:
  "starts_close readme_basic (onEnd readme_basic (dragged readme_basic 500)) BackdropPress \<and>
   animatedHeight (onEnd readme_basic (dragged readme_basic 500)) = 0 \<and>
   running (step readme_basic (onEnd readme_basic (dragged readme_basic 500)) BackdropPress) = None \<and>
   closeCalls (step readme_basic (onEnd readme_basic (dragged readme_basic 500)) BackdropPress)
     = Suc (closeCalls (onEnd readme_basic (dragged readme_basic 500))) \<and>
   starts_close readme_advanced (dragged readme_advanced 300) DragEnd \<and>
   animatedHeight (dragged readme_advanced 300) \<noteq> 0 \<and>
   close_pending (step readme_advanced (dragged readme_advanced 300) DragEnd) \<and>
   closeCalls (step readme_advanced (dragged readme_advanced 300) DragEnd)
     = closeCalls (dragged readme_advanced 300) \<and>
   closeCalls (run readme_advanced (mount readme_advanced True)
     [Finish, DragStart, DragMove 300, DragEnd, DragStart, DragMove 0, DragEnd, Finish]) = 1 \<and>
   reports (run readme_advanced (mount readme_advanced True)
     [Finish, DragStart, DragMove 300, DragEnd, DragStart, DragMove 0, DragEnd, Finish])
     = [False, True]"
proof -
  have b: "starts_close readme_basic (onEnd readme_basic (dragged readme_basic 500)) BackdropPress"
    "animatedHeight (onEnd readme_basic (dragged readme_basic 500)) = 0"
    by (simp_all add: dragged_def example_defs prim_defs handler_defs Let_def)
  have d: "starts_close readme_advanced (dragged readme_advanced 300) DragEnd"
    "animatedHeight (dragged readme_advanced 300) \<noteq> 0"
    by (simp_all add: dragged_def example_defs prim_defs handler_defs Let_def)
  have r: "reports (run readme_advanced (mount readme_advanced True)
     [Finish, DragStart, DragMove 300, DragEnd, DragStart, DragMove 0, DragEnd, Finish])
     = [False, True]"
    by (simp add: example_defs prim_defs handler_defs Let_def)
  have "closeCalls (run readme_advanced (mount readme_advanced True)
     [Finish, DragStart, DragMove 300, DragEnd, DragStart, DragMove 0, DragEnd, Finish])
     = count_list [False, True] True"
    using close_only_when_finished [of True "mount readme_advanced True" readme_advanced True
      "[Finish, DragStart, DragMove 300, DragEnd, DragStart, DragMove 0, DragEnd, Finish]" Finish]
    unfolding r by blast
  then have k: "closeCalls (run readme_advanced (mount readme_advanced True)
     [Finish, DragStart, DragMove 300, DragEnd, DragStart, DragMove 0, DragEnd, Finish]) = 1"
    by simp
  show ?thesis
    using b d r k
      close_only_when_finished [of True "onEnd readme_basic (dragged readme_basic 500)"
        readme_basic True "[]" BackdropPress]
      close_only_when_finished [of True "dragged readme_advanced 300"
        readme_advanced True "[]" DragEnd]
    by blast
qed

text \<open>
  C7. In modal mode, a press on the backdrop of a sheet that can be closed assigns the eased
  timing to 0 with the close callback, and does not move the height itself. If the height
  is not 0 the animation is then in flight and \<^verbatim>\<open>onClose\<close> has not been called yet; if it
  is 0 already the animation is complete at once and \<^verbatim>\<open>onClose\<close> is called in the press.
  Either way, when the animation, after any number of frames, has completed, the height
  is 0 and \<^verbatim>\<open>onClose\<close> has been called once more. Outside modal mode there is no backdrop
  to press.
\<close>

theorem backdrop_press_closes:
  "(\<not> disableClose c \<and> backdrop_rendered c s \<longrightarrow>
      step c s BackdropPress = animate (withTiming 0 CloseIfFinished) s \<and>
      animatedHeight (step c s BackdropPress) = animatedHeight s \<and>
      (animatedHeight s \<noteq> 0 \<longrightarrow>
         running (step c s BackdropPress) = Some (withTiming 0 CloseIfFinished) \<and>
         closeCalls (step c s BackdropPress) = closeCalls s) \<and>
      (animatedHeight s = 0 \<longrightarrow>
         running (step c s BackdropPress) = None \<and>
         closeCalls (step c s BackdropPress) = Suc (closeCalls s)) \<and>
      animatedHeight (run c s (BackdropPress # map Frame vs @ [Finish])) = 0 \<and>
      closeCalls (run c s (BackdropPress # map Frame vs @ [Finish])) = Suc (closeCalls s)) \<and>
   (backdrop_rendered c s \<longrightarrow> isModal c) \<and>
   (\<not> isModal c \<longrightarrow> step c s BackdropPress = s)"
proof (intro conjI impI)
  assume a: "\<not> disableClose c \<and> backdrop_rendered c s"
  let ?p = "animate (withTiming 0 CloseIfFinished) s"
  show p: "step c s BackdropPress = ?p"
    using a by (simp add: handleBackdropPress_def)
  show "animatedHeight (step c s BackdropPress) = animatedHeight s"
    unfolding p by simp
  have r: "run c s (BackdropPress # map Frame vs @ [Finish]) = settle (run c ?p (map Frame vs))"
    using p by (simp add: run_append)
  show "animatedHeight (run c s (BackdropPress # map Frame vs @ [Finish])) = 0"
  proof (cases "animatedHeight s = 0")
    case True
    then have "running ?p = None"
      by (simp add: running_animate)
    then have "run c ?p (map Frame vs) = ?p"
      by (rule run_frames_idle)
    then show ?thesis
      unfolding r by (simp add: animatedHeight_settle_animate)
  next
    case False
    then have "running (run c ?p (map Frame vs)) = Some (withTiming 0 CloseIfFinished)"
      using run_frames [of c ?p vs] by (simp add: running_animate)
    then show ?thesis
      unfolding r by (simp add: animatedHeight_settle)
  qed
  show "closeCalls (run c s (BackdropPress # map Frame vs @ [Finish])) = Suc (closeCalls s)"
  proof (cases "animatedHeight s = 0")
    case True
    then have "running ?p = None"
      by (simp add: running_animate)
    then have "run c ?p (map Frame vs) = ?p"
      by (rule run_frames_idle)
    then show ?thesis
      unfolding r by (simp add: closeCalls_settle_animate)
  next
    case False
    then have "running (run c ?p (map Frame vs)) = Some (withTiming 0 CloseIfFinished)"
      and "closeCalls (run c ?p (map Frame vs)) = closeCalls s"
      using run_frames [of c ?p vs] by (simp_all add: running_animate closeCalls_animate)
    then show ?thesis
      unfolding r by (simp add: closeCalls_settle)
  qed
next
  assume "\<not> disableClose c \<and> backdrop_rendered c s" and "animatedHeight s \<noteq> 0"
  then show "running (step c s BackdropPress) = Some (withTiming 0 CloseIfFinished)"
    and "closeCalls (step c s BackdropPress) = closeCalls s"
    by (simp_all add: handleBackdropPress_def running_animate closeCalls_animate)
next
  assume "\<not> disableClose c \<and> backdrop_rendered c s" and "animatedHeight s = 0"
  then show "running (step c s BackdropPress) = None"
    and "closeCalls (step c s BackdropPress) = Suc (closeCalls s)"
    by (simp_all add: handleBackdropPress_def running_animate closeCalls_animate)
next
  assume "backdrop_rendered c s"
  then show "isModal c"
    by (simp add: backdrop_rendered_def)
next
  assume "\<not> isModal c"
  then show "step c s BackdropPress = s"
    by (simp add: backdrop_rendered_def)
qed

theorem backdrop_press_closes_witness:
  "\<not> disableClose readme_basic \<and>
   backdrop_rendered readme_basic (settle (mount readme_basic True)) \<and>
   isModal readme_basic \<and>
   animatedHeight (settle (mount readme_basic True)) \<noteq> 0 \<and>
   running (step readme_basic (settle (mount readme_basic True)) BackdropPress)
     = Some (withTiming 0 CloseIfFinished) \<and>
   animatedHeight (run readme_basic (settle (mount readme_basic True))
     (BackdropPress # map Frame [250, 40] @ [Finish])) = 0 \<and>
   closeCalls (run readme_basic (settle (mount readme_basic True))
     (BackdropPress # map Frame [250, 40] @ [Finish])) = 1 \<and>
   backdrop_rendered readme_basic (onEnd readme_basic (dragged readme_basic 500)) \<and>
   animatedHeight (onEnd readme_basic (dragged readme_basic 500)) = 0 \<and>
   closeCalls (step readme_basic (onEnd readme_basic (dragged readme_basic 500)) BackdropPress)
     = 1 \<and>
   \<not> isModal readme_inline \<and>
   step readme_inline (mount readme_inline True) BackdropPress = mount readme_inline True"
proof -
  have c: "\<not> disableClose readme_basic" "isModal readme_basic" "showBackdrop readme_basic"
    "height readme_basic = 400"
    by (simp_all add: example_defs)
  then have b: "backdrop_rendered readme_basic (settle (mount readme_basic True))"
    by (simp add: backdrop_rendered_def)
  have n: "closeCalls (settle (mount readme_basic True)) = 0"
    "animatedHeight (settle (mount readme_basic True)) \<noteq> 0"
    using c(4) by (simp_all add: closeCalls_settle animatedHeight_settle running_mount)
  have d: "backdrop_rendered readme_basic (onEnd readme_basic (dragged readme_basic 500))"
    "animatedHeight (onEnd readme_basic (dragged readme_basic 500)) = 0"
    "closeCalls (onEnd readme_basic (dragged readme_basic 500)) = 0"
    by (simp_all add: dragged_def example_defs prim_defs handler_defs Let_def)
  have i: "\<not> isModal readme_inline"
    by (simp add: example_defs)
  have "closeCalls (step readme_basic (onEnd readme_basic (dragged readme_basic 500))
      BackdropPress) = Suc (closeCalls (onEnd readme_basic (dragged readme_basic 500)))"
    using c(1) d(1,2)
      backdrop_press_closes [of readme_basic "onEnd readme_basic (dragged readme_basic 500)" "[]"]
    by blast
  then have k: "closeCalls (step readme_basic (onEnd readme_basic (dragged readme_basic 500))
      BackdropPress) = 1"
    using d(3) by simp
  have "closeCalls (run readme_basic (settle (mount readme_basic True))
     (BackdropPress # map Frame [250, 40] @ [Finish]))
     = Suc (closeCalls (settle (mount readme_basic True)))"
    using c(1) b
      backdrop_press_closes [of readme_basic "settle (mount readme_basic True)" "[250, 40]"]
    by blast
  then have l: "closeCalls (run readme_basic (settle (mount readme_basic True))
     (BackdropPress # map Frame [250, 40] @ [Finish])) = 1"
    using n(1) by simp
  show ?thesis
    using c(1,2) b n(2) d(1,2) i k l
      backdrop_press_closes [of readme_basic "settle (mount readme_basic True)" "[250, 40]"]
      backdrop_press_closes [of readme_inline "mount readme_inline True" "[]"]
    by blast
qed

section \<open>Visibility\<close>

text \<open>
  The claim C5 fails on the README's basic example: the sheet is mounted hidden, shown and
  hidden again, each animation running to its end. The height ends at 0, but \<^verbatim>\<open>onClose\<close>
  has not been called, because the timing animation of the effect has no callback.
\<close>

theorem visibility_toggle_counterexample:
  "animatedHeight (run readme_basic (mount readme_basic False)
     [Finish, Render True, Finish, Render False, Finish]) = 0 \<and>
   closeCalls (run readme_basic (mount readme_basic False)
     [Finish, Render True, Finish, Render False, Finish]) = 0 \<and>
   closeCalls (run readme_basic (mount readme_basic False)
     [Finish, Render True, Finish, Render False, Finish]) \<noteq> 1"
  by (simp add: example_defs prim_defs handler_defs Let_def)

text \<open>
  C5, amended. When \<^verbatim>\<open>visible\<close> becomes false, the effect assigns the eased timing to 0
  without a callback (it is in flight afterwards unless the height is 0 already), and
  \<^verbatim>\<open>onClose\<close> is not called. After \<^verbatim>\<open>visible\<close> has gone from false to true to false
  with nothing but the animation engine acting in between, and the last animation has
  completed, the height is 0, no animation is in flight, and \<^verbatim>\<open>onClose\<close> has been called
  0 times.
\<close>

theorem visibility_toggle:
  assumes "list_all engine es1" and "list_all engine es2" and "list_all engine es3"
  shows "(visible s \<longrightarrow>
            step c s (Render False) = animate (withTiming 0 NoCallback) (s\<lparr>visible := False\<rparr>) \<and>
            (animatedHeight s \<noteq> 0 \<longrightarrow>
               running (step c s (Render False)) = Some (withTiming 0 NoCallback)) \<and>
            closeCalls (step c s (Render False)) = closeCalls s) \<and>
         animatedHeight (run c (mount c False) (toggle es1 es2 es3)) = 0 \<and>
         running (run c (mount c False) (toggle es1 es2 es3)) = None \<and>
         closeCalls (run c (mount c False) (toggle es1 es2 es3)) = 0"
proof -
  define s1 where "s1 = run c (mount c False) es1"
  define s2 where "s2 = run c (step c s1 (Render True)) es2"
  define s3 where "s3 = run c (step c s2 (Render False)) es3"
  have t: "run c (mount c False) (toggle es1 es2 es3) = settle s3"
    by (simp add: toggle_def run_append s1_def s2_def s3_def)
  have "\<not> visible s1"
    using assms(1) by (simp add: s1_def engine_run_visible)
  then have "visible (step c s1 (Render True))"
    by (simp add: render_def useEffect_visible_def)
  then have "visible s2"
    using assms(2) by (simp add: s2_def engine_run_visible)
  then have "closing (step c s2 (Render False))"
    by (simp only: render_False) (simp add: closing_animate)
  then have "closing s3"
    unfolding s3_def using assms(3) by (rule engine_run_closing [rotated])
  then have h: "animatedHeight (settle s3) = 0"
    by (rule settle_closing)
  have "list_all no_interaction (toggle es1 es2 es3)"
    using assms by (simp add: toggle_def engine_no_interaction)
  then have n: "closeCalls (run c (mount c False) (toggle es1 es2 es3)) = closeCalls (mount c False)"
    by (rule no_interaction_run) simp
  have v: "visible s \<longrightarrow>
      step c s (Render False) = animate (withTiming 0 NoCallback) (s\<lparr>visible := False\<rparr>) \<and>
      (animatedHeight s \<noteq> 0 \<longrightarrow>
         running (step c s (Render False)) = Some (withTiming 0 NoCallback)) \<and>
      closeCalls (step c s (Render False)) = closeCalls s"
    by (simp add: render_def useEffect_visible_def running_animate closeCalls_animate)
  have "animatedHeight (run c (mount c False) (toggle es1 es2 es3)) = 0"
    and "running (run c (mount c False) (toggle es1 es2 es3)) = None"
    and "closeCalls (run c (mount c False) (toggle es1 es2 es3)) = 0"
    using h n unfolding t by simp_all
  then show ?thesis
    using v by blast
qed

theorem visibility_toggle_witness:
  "list_all engine [Finish] \<and> list_all engine [Frame 430, Frame 390, Finish] \<and>
   list_all engine [Frame 120] \<and>
   visible (settle (mount readme_basic True)) \<and>
   animatedHeight (settle (mount readme_basic True)) \<noteq> 0 \<and>
   running (step readme_basic (settle (mount readme_basic True)) (Render False))
     = Some (withTiming 0 NoCallback) \<and>
   animatedHeight (run readme_basic (mount readme_basic False)
     (toggle [Finish] [Frame 430, Frame 390, Finish] [Frame 120])) = 0 \<and>
   closeCalls (run readme_basic (mount readme_basic False)
     (toggle [Finish] [Frame 430, Frame 390, Finish] [Frame 120])) = 0"
proof -
  have e: "list_all engine [Finish]" "list_all engine [Frame 430, Frame 390, Finish]"
    "list_all engine [Frame 120]"
    by simp_all
  have "height readme_basic = 400"
    by (simp add: example_defs)
  then have v: "visible (settle (mount readme_basic True))"
    "animatedHeight (settle (mount readme_basic True)) \<noteq> 0"
    by (simp_all add: animatedHeight_settle running_mount)
  show ?thesis
    using e v visibility_toggle [OF e, of "settle (mount readme_basic True)" readme_basic]
    by blast
qed

section \<open>Heights at rest\<close>

text \<open>
  The claim C6 fails in two ways, each on a configuration with
  \<open>minHeight \<le> maxHeight\<close>. On the README's advanced example (\<open>minHeight\<close> 200) hiding
  the open sheet settles at 0, below \<open>minHeight\<close>. On the README's basic example on a
  window 400 high (\<open>height\<close> 400, default \<open>maxHeight\<close> 320) opening settles at 400, above
  \<open>maxHeight\<close>.
\<close>

theorem settled_height_counterexample:
  "minHeight readme_advanced \<le> maxHeight readme_advanced \<and>
   running (run readme_advanced (mount readme_advanced True) [Finish, Render False, Finish])
     = None \<and>
   animatedHeight (run readme_advanced (mount readme_advanced True)
     [Finish, Render False, Finish]) = 0 \<and>
   \<not> minHeight readme_advanced
       \<le> animatedHeight (run readme_advanced (mount readme_advanced True)
            [Finish, Render False, Finish]) \<and>
   minHeight readme_basic_small \<le> maxHeight readme_basic_small \<and>
   running (run readme_basic_small (mount readme_basic_small True) [Finish]) = None \<and>
   animatedHeight (run readme_basic_small (mount readme_basic_small True) [Finish]) = 400 \<and>
   \<not> animatedHeight (run readme_basic_small (mount readme_basic_small True) [Finish])
       \<le> maxHeight readme_basic_small"
  by (simp add: example_defs prim_defs handler_defs Let_def)

text \<open>
  C6, amended. For a configuration with \<open>minHeight \<le> height \<le> maxHeight\<close>, in every
  state reachable from mounting in which no animation is in flight (so after any open,
  close or snap animation has settled) the height is 0, the closed height, or lies in
  \<open>[minHeight, maxHeight]\<close>.
\<close>

theorem settled_height_closed_or_within:
  assumes "minHeight c \<le> height c" and "height c \<le> maxHeight c"
    and "running (run c (mount c v) es) = None"
  shows "animatedHeight (run c (mount c v) es) = 0 \<or>
         (minHeight c \<le> animatedHeight (run c (mount c v) es) \<and>
          animatedHeight (run c (mount c v) es) \<le> maxHeight c)"
proof -
  have "closed_or_within c (resting_height (mount c v))"
    using assms(1,2) by (simp add: resting_height_mount closed_or_within_def)
  then have "closed_or_within c (resting_height (run c (mount c v) es))"
    by (rule run_resting [OF assms(1,2)])
  then show ?thesis
    using assms(3) by (simp add: resting_height_def closed_or_within_def)
qed

theorem settled_height_closed_or_within_witness:
  "minHeight readme_advanced \<le> height readme_advanced \<and>
   height readme_advanced \<le> maxHeight readme_advanced \<and>
   running (run readme_advanced (mount readme_advanced True)
     [Finish, DragStart, DragMove (- 300), DragEnd, Finish]) = None \<and>
   (animatedHeight (run readme_advanced (mount readme_advanced True)
      [Finish, DragStart, DragMove (- 300), DragEnd, Finish]) = 0 \<or>
    minHeight readme_advanced
      \<le> animatedHeight (run readme_advanced (mount readme_advanced True)
           [Finish, DragStart, DragMove (- 300), DragEnd, Finish]) \<and>
    animatedHeight (run readme_advanced (mount readme_advanced True)
      [Finish, DragStart, DragMove (- 300), DragEnd, Finish]) \<le> maxHeight readme_advanced)"
proof -
  have c: "minHeight readme_advanced \<le> height readme_advanced"
    "height readme_advanced \<le> maxHeight readme_advanced"
    by (simp_all add: example_defs)
  have r: "running (run readme_advanced (mount readme_advanced True)
     [Finish, DragStart, DragMove (- 300), DragEnd, Finish]) = None"
    by simp
  show ?thesis
    using c r settled_height_closed_or_within [OF c r]
    by blast
qed

end
